theory Spec2Isabelle
  imports Complex_Main "HOL-Library.Sublist" "HOL-Library.Word"
begin

unbundle bit_operations_syntax

section \<open>Python strings\<close>

text \<open>
  A Python \<open>str\<close> is a sequence of Unicode code points; \<open>len\<close> and slicing count code
  points.  A code point is a natural number here, and \<open>lit\<close> turns an ASCII literal of
  the source into such a sequence.
\<close>

type_synonym codepoint = nat
type_synonym pystr = "codepoint list"

definition lit :: "string \<Rightarrow> pystr" where
  "lit s = map of_char s"

text \<open>\<open>needle in hay\<close> on strings: \<open>needle\<close> occurs as a contiguous piece of \<open>hay\<close>.\<close>

fun str_contains :: "pystr \<Rightarrow> pystr \<Rightarrow> bool" where
  "str_contains needle [] = (needle = [])"
| "str_contains needle (c # cs) = (prefix needle (c # cs) \<or> str_contains needle cs)"

text \<open>\<open>s.split(sep)\<close> for a one-character separator: never empty, \<open>''.split('_') == ['']\<close>.\<close>

fun str_split :: "codepoint \<Rightarrow> pystr \<Rightarrow> pystr list" where
  "str_split sep [] = [[]]"
| "str_split sep (c # cs) =
     (if c = sep then [] # str_split sep cs
      else (case str_split sep cs of
              [] \<Rightarrow> [[c]]
            | p # ps \<Rightarrow> (c # p) # ps))"

text \<open>\<open>sep.join(parts)\<close>.\<close>

fun str_join :: "codepoint \<Rightarrow> pystr list \<Rightarrow> pystr" where
  "str_join sep [] = []"
| "str_join sep [p] = p"
| "str_join sep (p # q # ps) = p @ sep # str_join sep (q # ps)"

section \<open>Display names (\<open>index\<close>, \<open>view_pdf\<close>)\<close>

definition underscore :: codepoint where
  "underscore = 95"

text \<open>
  Both handlers compute the display name with the same three lines:
  \<^verbatim>\<open>
    display_name = filename
    if '_' in filename and len(filename.split('_')[0]) == 36:  # UUID length
        display_name = '_'.join(filename.split('_')[1:])
  \<close>
  \<open>split\<close> never returns an empty list, so the index \<open>[0]\<close> is always in range.
\<close>

definition display_name :: "pystr \<Rightarrow> pystr" where
  "display_name filename =
     (if underscore \<in> set filename \<and> length (str_split underscore filename ! 0) = 36
      then str_join underscore (drop 1 (str_split underscore filename))
      else filename)"


section \<open>More string operations\<close>

definition dot :: codepoint where
  "dot = 46"

definition slash :: codepoint where
  "slash = 47"

definition hyphen :: codepoint where
  "hyphen = 45"

definition nl :: codepoint where
  "nl = 10"

definition dquote :: codepoint where
  "dquote = 34"

definition squote :: codepoint where
  "squote = 39"

text \<open>
  \<open>s.rsplit(sep, 1)\<close>: at most one split, at the last separator; a string without the
  separator comes back alone.
\<close>

definition str_rsplit1 :: "codepoint \<Rightarrow> pystr \<Rightarrow> pystr list" where
  "str_rsplit1 sep s =
     (if sep \<in> set s
      then [rev (drop 1 (dropWhile (\<lambda>c. c \<noteq> sep) (rev s))),
            rev (takeWhile (\<lambda>c. c \<noteq> sep) (rev s))]
      else [s])"

text \<open>\<open>str(n)\<close> for an integer: decimal digits, with a minus sign below zero.\<close>

fun digits :: "nat \<Rightarrow> pystr" where
  "digits n = (if n < 10 then [48 + n] else digits (n div 10) @ [48 + n mod 10])"

definition str_int :: "int \<Rightarrow> pystr" where
  "str_int i = (if i < 0 then hyphen # digits (nat (- i)) else digits (nat i))"

text \<open>
  \<open>s.strip()\<close> removes the leading and trailing characters for which \<open>str.isspace\<close>
  holds.
\<close>

definition py_isspace :: "codepoint \<Rightarrow> bool" where
  "py_isspace c =
     ((9 \<le> c \<and> c \<le> 13) \<or> (28 \<le> c \<and> c \<le> 32) \<or> c = 133 \<or> c = 160 \<or> c = 5760 \<or>
      (8192 \<le> c \<and> c \<le> 8202) \<or> c = 8232 \<or> c = 8233 \<or> c = 8239 \<or> c = 8287 \<or> c = 12288)"

definition str_strip :: "pystr \<Rightarrow> pystr" where
  "str_strip s = rev (dropWhile py_isspace (rev (dropWhile py_isspace s)))"

text \<open>
  \<open>str.lower\<close> follows the Unicode case tables.  Every function below that calls it
  takes it as its first argument \<open>lower\<close>, and the theorems hold for each such
  function.  \<open>ascii_lower\<close>, which lowers \<open>A\<close> to \<open>Z\<close> only, is the instance the
  examples run with.
\<close>

definition ascii_lower :: "pystr \<Rightarrow> pystr" where
  "ascii_lower s = map (\<lambda>c. if 65 \<le> c \<and> c \<le> 90 then c + 32 else c) s"

section \<open>Configuration\<close>

definition UPLOAD_FOLDER :: pystr where
  "UPLOAD_FOLDER = lit ''uploads''"

definition ALLOWED_EXTENSIONS :: "pystr set" where
  "ALLOWED_EXTENSIONS = {lit ''pdf''}"

text \<open>
  \<^verbatim>\<open>
  def allowed_file(filename):
      return '.' in filename and filename.rsplit('.', 1)[1].lower() in ALLOWED_EXTENSIONS
  \<close>
  The index \<open>[1]\<close> is read only behind \<open>'.' in filename\<close>, where \<open>rsplit\<close> returns two
  parts.
\<close>

definition allowed_file :: "(pystr \<Rightarrow> pystr) \<Rightarrow> pystr \<Rightarrow> bool" where
  "allowed_file lower filename =
     (dot \<in> set filename \<and> lower (str_rsplit1 dot filename ! 1) \<in> ALLOWED_EXTENSIONS)"

section \<open>Stored keys\<close>

text \<open>
  \<open>str(uuid.uuid4())\<close>: the 128-bit value as 32 lower-case hexadecimal digits, most
  significant first, cut \<open>8-4-4-4-12\<close> by hyphens (\<open>UUID.__str__\<close>).
\<close>

definition hexdigit :: "nat \<Rightarrow> codepoint" where
  "hexdigit d = (if d < 10 then 48 + d else 87 + d)"

definition hex32 :: "128 word \<Rightarrow> pystr" where
  "hex32 w = map (\<lambda>i. hexdigit (unat (drop_bit (4 * (31 - i)) w AND 15))) [0..<32]"

definition uuid_str :: "128 word \<Rightarrow> pystr" where
  "uuid_str w =
     (let hex = hex32 w
      in take 8 hex @ [hyphen] @ take 4 (drop 8 hex) @ [hyphen] @ take 4 (drop 12 hex) @
         [hyphen] @ take 4 (drop 16 hex) @ [hyphen] @ drop 20 hex)"

text \<open>\<open>os.path.join(a, b)\<close> of \<open>posixpath\<close>, for two components.\<close>

definition os_path_join :: "pystr \<Rightarrow> pystr \<Rightarrow> pystr" where
  "os_path_join a b =
     (if prefix [slash] b then b
      else if a = [] \<or> suffix [slash] a then a @ b
      else a @ [slash] @ b)"

section \<open>The upload handler (\<open>upload_file\<close>)\<close>

text \<open>
  \<open>request.files\<close> holds at most one part named \<open>file\<close>, with the filename the client
  sent and the bytes.  The upload directory is a map from paths to contents.
  \<open>file.save\<close> belongs to the framework: it is the argument \<open>save\<close>, which returns the
  directory as the write left it and, when the write raised, the text of the exception.
  \<open>secure_filename\<close> (werkzeug) and the value drawn by \<open>uuid.uuid4()\<close> are arguments too.
  The result is the redirect, the messages flashed, and the directory.
\<close>

record file_storage =
  file_filename :: pystr
  file_bytes :: "nat list"

type_synonym store = "pystr \<rightharpoonup> nat list"

datatype upload_response = Redirect_request_url | Redirect_view_pdf pystr

definition upload_file ::
  "(pystr \<Rightarrow> pystr) \<Rightarrow> (pystr \<Rightarrow> pystr) \<Rightarrow> 128 word \<Rightarrow>
   (store \<Rightarrow> pystr \<Rightarrow> nat list \<Rightarrow> pystr option \<times> store) \<Rightarrow>
   store \<Rightarrow> file_storage option \<Rightarrow> upload_response \<times> pystr list \<times> store" where
  "upload_file lower secure_filename uuid4 save uploads files =
     (case files of
        None \<Rightarrow> (Redirect_request_url, [lit ''No file selected''], uploads)
      | Some file \<Rightarrow>
          if file_filename file = []
          then (Redirect_request_url, [lit ''No file selected''], uploads)
          else if file_filename file \<noteq> [] \<and> allowed_file lower (file_filename file)
          then
            (let original_filename = secure_filename (file_filename file);
                 unique_filename = uuid_str uuid4 @ [underscore] @ original_filename;
                 file_path = os_path_join UPLOAD_FOLDER unique_filename
             in case save uploads file_path (file_bytes file) of
                  (None, uploads') \<Rightarrow> (Redirect_view_pdf unique_filename, [], uploads')
                | (Some e, uploads') \<Rightarrow>
                    (Redirect_request_url, [lit ''Error uploading file: '' @ e], uploads'))
          else (Redirect_request_url,
                [lit ''Invalid file type. Please upload a PDF file.''], uploads))"

section \<open>Viewing and serving (\<open>view_pdf\<close>, \<open>serve_pdf\<close>)\<close>

text \<open>
  \<open>os.path.exists\<close> is the argument \<open>path_exists\<close>; \<open>send_from_directory\<close> (Flask) is an
  argument that returns the bytes served or the text of the exception it raised.
\<close>

datatype view_response = Redirect_index pystr | Viewer_page pystr pystr

definition view_pdf :: "(pystr \<Rightarrow> bool) \<Rightarrow> pystr \<Rightarrow> view_response" where
  "view_pdf path_exists filename =
     (let file_path = os_path_join UPLOAD_FOLDER filename
      in if \<not> path_exists file_path then Redirect_index (lit ''File not found'')
         else Viewer_page filename (display_name filename))"

datatype pdf_response = Text_status pystr nat | Pdf_bytes "nat list"

definition serve_pdf ::
  "(pystr \<Rightarrow> bool) \<Rightarrow> (pystr \<Rightarrow> pystr \<Rightarrow> pystr + nat list) \<Rightarrow> pystr \<Rightarrow> pdf_response" where
  "serve_pdf path_exists send_from_directory filename =
     (let file_path = os_path_join UPLOAD_FOLDER filename
      in if \<not> path_exists file_path then Text_status (lit ''PDF file not found'') 404
         else (case send_from_directory UPLOAD_FOLDER filename of
                 Inr bytes \<Rightarrow> Pdf_bytes bytes
               | Inl e \<Rightarrow> Text_status (lit ''Error serving PDF: '' @ e) 500))"

section \<open>The chat handler (\<open>chat\<close>)\<close>

text \<open>
  The body of a chat request, at the types the viewer's \<open>sendMessage\<close> sends: a
  message, a history of role-tagged entries, and a context dictionary.  A key the
  dictionary lacks is \<open>None\<close>, which is where \<open>context.get(key, default)\<close> takes its
  default.
\<close>

record chat_message =
  role :: pystr
  content :: pystr

record pdf_context =
  ctx_filename :: "pystr option"
  ctx_currentPage :: "int option"
  ctx_totalPages :: "int option"
  ctx_selectedText :: "pystr option"

record chat_request =
  req_message :: pystr
  req_history :: "chat_message list"
  req_context :: pdf_context

text \<open>
  The f-string of \<open>system_prompt\<close>: its literal text around the four replacement
  fields, which arrive already formatted.
\<close>

definition prompt_text :: "pystr \<Rightarrow> pystr \<Rightarrow> pystr \<Rightarrow> pystr \<Rightarrow> pystr" where
  "prompt_text fname page pages selected =
     lit ''You are a helpful PDF assistant. You're helping the user understand a PDF document.'' @
     [nl, nl] @
     lit ''Current PDF Context:'' @ [nl] @
     lit ''- Filename: '' @ fname @ [nl] @
     lit ''- Current Page: '' @ page @ lit '' of '' @ pages @ [nl] @
     lit ''- Selected Text: '' @ selected @ [nl, nl] @
     lit ''You can help with:'' @ [nl] @
     lit ''- Explaining content and concepts'' @ [nl] @
     lit ''- Summarizing sections or pages'' @ [nl] @
     lit ''- Answering questions about the document'' @ [nl] @
     lit ''- Discussing selected text'' @ [nl] @
     lit ''- Providing context and analysis'' @ [nl, nl] @
     lit ''Be concise, helpful, and focus on the PDF content. If the user asks about specific pages or sections, acknowledge the current page context.''"

definition system_prompt :: "pdf_context \<Rightarrow> pystr" where
  "system_prompt context =
     prompt_text
       (case ctx_filename context of None \<Rightarrow> lit ''Unknown'' | Some v \<Rightarrow> v)
       (case ctx_currentPage context of None \<Rightarrow> str_int 1 | Some v \<Rightarrow> str_int v)
       (case ctx_totalPages context of None \<Rightarrow> lit ''Unknown'' | Some v \<Rightarrow> str_int v)
       (case ctx_selectedText context of None \<Rightarrow> lit ''None'' | Some v \<Rightarrow> v)"

text \<open>\<open>history[-10:] if len(history) > 10 else history\<close>.\<close>

definition recent_history :: "'a list \<Rightarrow> 'a list" where
  "recent_history history =
     (if length history > 10 then drop (length history - 10) history else history)"

definition messages :: "chat_request \<Rightarrow> chat_message list" where
  "messages data =
     [\<lparr>role = lit ''system'', content = system_prompt (req_context data)\<rparr>] @
     recent_history (req_history data) @
     [\<lparr>role = lit ''user'', content = req_message data\<rparr>]"

text \<open>
  The completion API is outside the program.  A call either raises, with the text
  \<open>str\<close> gives the exception, or returns a completion, of which the handler reads the
  \<open>message.content\<close> of each choice; the content of a choice may be \<open>None\<close>.  The call
  is the argument \<open>create\<close>; it also stands for building the client, which sits in the
  same \<open>try\<close>.  The model name, \<open>max_tokens\<close> and \<open>temperature\<close> are constants of
  the call.
\<close>

datatype api_outcome = Raises pystr | Completion "pystr option list"

text \<open>\<open>completion.choices[0].message.content.strip()\<close>, with what it raises.\<close>

definition first_choice_text :: "pystr option list \<Rightarrow> pystr + pystr" where
  "first_choice_text choices =
     (case choices of
        [] \<Rightarrow> Inl (lit ''list index out of range'')
      | None # _ \<Rightarrow>
          Inl ([squote] @ lit ''NoneType'' @ [squote] @ lit '' object has no attribute '' @
               [squote] @ lit ''strip'' @ [squote])
      | Some text # _ \<Rightarrow> Inr (str_strip text))"

definition missing_key_warning :: pystr where
  "missing_key_warning =
     [0x26A0, 0xFE0F] @
     lit '' OpenAI API key not found. Please set OPENAI_API_KEY in your .env file to enable AI chat.''"

text \<open>The \<open>except Exception as openai_error\<close> block.\<close>

definition openai_error_response ::
  "(pystr \<Rightarrow> pystr) \<Rightarrow> pystr \<Rightarrow> pystr \<Rightarrow> pdf_context \<Rightarrow> pystr" where
  "openai_error_response lower openai_error message context =
     (let error_msg = lower openai_error
      in if str_contains (lit ''authentication'') error_msg \<or>
            str_contains (lit ''api key'') error_msg
         then [0x1F511] @
              lit '' Invalid OpenAI API key. Please check your OPENAI_API_KEY in the .env file.''
         else if str_contains (lit ''rate limit'') error_msg \<or>
                 str_contains (lit ''quota'') error_msg
         then [0x23F1, 0xFE0F] @
              lit '' OpenAI API rate limit exceeded. Please try again in a moment.''
         else if str_contains (lit ''connection'') error_msg \<or>
                 str_contains (lit ''network'') error_msg
         then [0x1F310] @
              lit '' Network connection issue. Please check your internet connection and try again.''
         else if ctx_selectedText context \<noteq> None \<and> ctx_selectedText context \<noteq> Some []
         then
           (let selected = take 200 (the (ctx_selectedText context))
            in lit ''I can see you've selected: '' @ [dquote] @ selected @
               (if length (the (ctx_selectedText context)) > 200 then lit ''...'' else []) @
               [dquote, nl, nl] @
               lit ''What would you like me to explain about this selection? (Note: AI chat temporarily unavailable)'')
         else if str_contains (lit ''summary'') (lower message)
         then lit ''I'd be happy to provide a summary of page '' @
              (case ctx_currentPage context of None \<Rightarrow> str_int 1 | Some v \<Rightarrow> str_int v) @
              lit '' of this document. What specific section interests you? (Note: AI chat temporarily unavailable)''
         else if str_contains (lit ''explain'') (lower message)
         then lit ''I can help explain concepts from this PDF. Could you point me to the specific section or concept you'd like me to clarify? (Note: AI chat temporarily unavailable)''
         else lit ''I'm here to help you understand this PDF document. Currently viewing page '' @
              (case ctx_currentPage context of None \<Rightarrow> str_int 1 | Some v \<Rightarrow> str_int v) @
              lit '' of '' @
              (case ctx_totalPages context of None \<Rightarrow> lit ''?'' | Some v \<Rightarrow> str_int v) @
              lit ''. What would you like to know? (Note: AI chat temporarily unavailable)'')"

text \<open>
  The handler.  \<open>request.get_json()\<close> gives the body or raises (\<open>None\<close> here), which
  the outer \<open>except\<close> turns into the error answer with status 500.
  \<open>os.getenv('OPENAI_API_KEY')\<close> is the argument \<open>OPENAI_API_KEY\<close>; \<open>not api_key\<close> holds
  for an unset and for an empty variable.  The result is the JSON answer and the list
  of message lists passed to the completion API, in order.
\<close>

datatype chat_reply = Json_response pystr | Json_error pystr nat

definition chat ::
  "(pystr \<Rightarrow> pystr) \<Rightarrow> pystr option \<Rightarrow> (chat_message list \<Rightarrow> api_outcome) \<Rightarrow>
   chat_request option \<Rightarrow> chat_reply \<times> chat_message list list" where
  "chat lower OPENAI_API_KEY create body =
     (case body of
        None \<Rightarrow> (Json_error (lit ''Failed to process chat request'') 500, [])
      | Some data \<Rightarrow>
          (let message = req_message data;
               context = req_context data;
               msgs = messages data
           in if OPENAI_API_KEY = None \<or> OPENAI_API_KEY = Some []
              then (Json_response missing_key_warning, [])
              else
                (case (case create msgs of
                         Raises e \<Rightarrow> Inl e
                       | Completion choices \<Rightarrow> first_choice_text choices) of
                   Inr response \<Rightarrow> (Json_response response, [msgs])
                 | Inl openai_error \<Rightarrow>
                     (Json_response (openai_error_response lower openai_error message context),
                      [msgs]))))"

text \<open>
  The context \<open>sendMessage\<close> attaches in the viewer page.  \<open>view_pdf\<close> renders the page
  with the template variable \<open>filename\<close> set to the stored key, and the script reads
  \<^verbatim>\<open>
    const pdfContext = {
        filename: '{{ filename }}',
        currentPage: currentPage,
        totalPages: pdfDoc ? pdfDoc.numPages : 0,
        selectedText: window.getSelection().toString()
    };
  \<close>
  The first argument is the value of that string literal; \<open>pdfDoc\<close> is \<open>None\<close> while no
  document is loaded, and its page count otherwise.
\<close>

definition pdfContext :: "pystr \<Rightarrow> int \<Rightarrow> int option \<Rightarrow> pystr \<Rightarrow> pdf_context" where
  "pdfContext filename currentPage pdfDoc selection =
     \<lparr>ctx_filename = Some filename,
      ctx_currentPage = Some currentPage,
      ctx_totalPages = Some (case pdfDoc of Some numPages \<Rightarrow> numPages | None \<Rightarrow> 0),
      ctx_selectedText = Some selection\<rparr>"

section \<open>Zoom (\<open>zoomIn\<close>, \<open>zoomOut\<close>, \<open>resetZoom\<close>)\<close>

text \<open>
  The viewer keeps \<open>scale\<close> in a script variable; the three functions are the only
  code that assigns it after \<open>let scale = 1.2\<close>.
  \<^verbatim>\<open>
    function zoomIn()    { scale *= 1.25; if (scale > 3) scale = 3; ... }
    function zoomOut()   { scale *= 0.8;  if (scale < 0.5) scale = 0.5; ... }
    function resetZoom() { scale = 1.2; ... }
  \<close>
  A script number is a binary floating-point number: a literal denotes the nearest
  such number and a product is rounded to one.  The rounding is the argument \<open>fl\<close>;
  with the identity for \<open>fl\<close> the functions compute in exact arithmetic.
\<close>

definition initial_scale :: "(real \<Rightarrow> real) \<Rightarrow> real" where
  "initial_scale fl = fl (12 / 10)"

definition zoomIn :: "(real \<Rightarrow> real) \<Rightarrow> real \<Rightarrow> real" where
  "zoomIn fl scale =
     (let scale = fl (scale * fl (125 / 100))
      in if scale > fl 3 then fl 3 else scale)"

definition zoomOut :: "(real \<Rightarrow> real) \<Rightarrow> real \<Rightarrow> real" where
  "zoomOut fl scale =
     (let scale = fl (scale * fl (8 / 10))
      in if scale < fl (5 / 10) then fl (5 / 10) else scale)"

definition resetZoom :: "(real \<Rightarrow> real) \<Rightarrow> real \<Rightarrow> real" where
  "resetZoom fl scale = fl (12 / 10)"

text \<open>The toolbar buttons, and the scale after a sequence of clicks.\<close>

datatype zoom_button = ZoomIn | ZoomOut | ResetZoom

fun click :: "(real \<Rightarrow> real) \<Rightarrow> real \<Rightarrow> zoom_button \<Rightarrow> real" where
  "click fl scale ZoomIn = zoomIn fl scale"
| "click fl scale ZoomOut = zoomOut fl scale"
| "click fl scale ResetZoom = resetZoom fl scale"

definition clicks :: "(real \<Rightarrow> real) \<Rightarrow> zoom_button list \<Rightarrow> real" where
  "clicks fl buttons = foldl (click fl) (initial_scale fl) buttons"

section \<open>Example requests\<close>

text \<open>The inputs the theorems below are run on.\<close>

definition write_file :: "store \<Rightarrow> pystr \<Rightarrow> nat list \<Rightarrow> pystr option \<times> store" where
  "write_file uploads path bytes = (None, uploads(path \<mapsto> bytes))"

definition example_key :: pystr where
  "example_key = lit ''550e8400-e29b-41d4-a716-446655440000_report.pdf''"

definition example_history :: "chat_message list" where
  "example_history =
     map (\<lambda>i. \<lparr>role = (if even i then lit ''user'' else lit ''assistant''),
                content = lit ''turn '' @ digits i\<rparr>) [0..<15]"

definition long_selection :: pystr where
  "long_selection = replicate 250 120"

definition example_request :: "pystr \<Rightarrow> pystr \<Rightarrow> chat_request" where
  "example_request message selection =
     \<lparr>req_message = message, req_history = example_history,
      req_context = pdfContext example_key 2 (Some 5) selection\<rparr>"

definition example_fs :: "pystr \<Rightarrow> bool" where
  "example_fs path =
     (path = lit ''uploads'' \<or> path = lit ''uploads/..'' \<or>
      path = lit ''uploads/550e8400-e29b-41d4-a716-446655440000_report.pdf'')"

definition refusing_send :: "pystr \<Rightarrow> pystr \<Rightarrow> pystr + nat list" where
  "refusing_send directory path = Inl (lit ''404 Not Found'')"

definition failing_api :: "chat_message list \<Rightarrow> api_outcome" where
  "failing_api msgs = Raises (lit ''Internal Server Error'')"

definition blank_api :: "chat_message list \<Rightarrow> api_outcome" where
  "blank_api msgs = Completion [None]"

section \<open>Properties of the string functions\<close>

lemma str_split_not_Nil: "str_split sep s \<noteq> []"
  by (induction s) (auto split: list.splits)

lemma str_split_append:
  "sep \<notin> set p \<Longrightarrow> str_split sep (p @ sep # r) = p # str_split sep r"
  by (induction p) auto

lemma str_join_split: "str_join sep (str_split sep s) = s"
proof (induction s)
  case Nil
  show ?case by simp
next
  case (Cons c cs)
  show ?case
  proof (cases "c = sep")
    case True
    with Cons show ?thesis
      by (cases "str_split sep cs") (simp_all add: str_split_not_Nil)
  next
    case False
    obtain p ps where ps: "str_split sep cs = p # ps"
      using str_split_not_Nil [of sep cs] by (cases "str_split sep cs") auto
    with Cons False show ?thesis
      by (cases ps) auto
  qed
qed

lemma split_at_first:
  assumes "sep \<in> set s"
  shows "\<exists>p r. s = p @ sep # r \<and> sep \<notin> set p"
  using assms by (metis split_list_first)

lemma display_name_prefixed:
  assumes "underscore \<notin> set p" and "length p = 36"
  shows "display_name (p @ underscore # r) = r"
  using assms by (simp add: display_name_def str_split_append str_join_split)
lemma display_name_other:
  assumes "\<not> (\<exists>p r. key = p @ underscore # r \<and> underscore \<notin> set p \<and> length p = 36)"
  shows "display_name key = key"
proof (cases "underscore \<in> set key")
  case False
  then show ?thesis by (simp add: display_name_def)
next
  case True
  from split_at_first [OF True] obtain p r
    where pr: "key = p @ underscore # r" "underscore \<notin> set p"
    by (elim exE conjE)
  have "length p \<noteq> 36"
  proof
    assume "length p = 36"
    with pr have "\<exists>p r. key = p @ underscore # r \<and> underscore \<notin> set p \<and> length p = 36"
      by (intro exI conjI)
    with assms show False ..
  qed
  with pr(2) have "display_name (p @ underscore # r) = p @ underscore # r"
    by (simp add: display_name_def str_split_append)
  with pr(1) show ?thesis by simp
qed

section \<open>Display names\<close>

lemma display_name_example:
  "display_name (lit ''550e8400-e29b-41d4-a716-446655440000_report.pdf'') = lit ''report.pdf''"
  by (simp add: display_name_def lit_def underscore_def)

lemma short_key_has_no_id_prefix:
  assumes "length key < 36"
  shows "\<nexists>p r. key = p @ [underscore] @ r \<and> underscore \<notin> set p \<and> length p = 36"
proof
  assume "\<exists>p r. key = p @ [underscore] @ r \<and> underscore \<notin> set p \<and> length p = 36"
  then obtain p r where "key = p @ [underscore] @ r" and "length p = 36"
    by (elim exE conjE)
  then have "length key = 36 + 1 + length r" by simp
  with assms show False by simp
qed

text \<open>
  Claim C7.  A key whose part before the first underscore has exactly 36 characters
  is shown as what follows that underscore, later underscores kept; any other key is
  shown as it is.  The key \<open>550e8400-e29b-41d4-a716-446655440000_report.pdf\<close> is shown as
  \<open>report.pdf\<close>.
\<close>

theorem display_name_strips_id_prefix:
  "(underscore \<notin> set p \<and> length p = 36 \<longrightarrow> display_name (p @ [underscore] @ r) = r) \<and>
   ((\<nexists>p r. key = p @ [underscore] @ r \<and> underscore \<notin> set p \<and> length p = 36) \<longrightarrow>
      display_name key = key) \<and>
   display_name (lit ''550e8400-e29b-41d4-a716-446655440000_report.pdf'') = lit ''report.pdf''"
  using display_name_prefixed [of p r] display_name_other [of key] display_name_example
  by simp

theorem display_name_strips_id_prefix_witness:
  "underscore \<notin> set (lit ''123e4567-e89b-12d3-a456-426614174000'') \<and>
   length (lit ''123e4567-e89b-12d3-a456-426614174000'') = 36 \<and>
   display_name (lit ''123e4567-e89b-12d3-a456-426614174000'' @ [underscore] @ lit ''my_tax_form.pdf'')
     = lit ''my_tax_form.pdf'' \<and>
   (\<nexists>p r. lit ''old_scan.pdf'' = p @ [underscore] @ r \<and> underscore \<notin> set p \<and> length p = 36) \<and>
   display_name (lit ''old_scan.pdf'') = lit ''old_scan.pdf''"
proof -
  have a: "underscore \<notin> set (lit ''123e4567-e89b-12d3-a456-426614174000'')"
    by (simp add: lit_def underscore_def)
  have b: "length (lit ''123e4567-e89b-12d3-a456-426614174000'') = 36"
    by (simp add: lit_def)
  have c: "\<nexists>p r. lit ''old_scan.pdf'' = p @ [underscore] @ r \<and> underscore \<notin> set p \<and> length p = 36"
    by (rule short_key_has_no_id_prefix) (simp add: lit_def)
  from a b c
    display_name_strips_id_prefix [of "lit ''123e4567-e89b-12d3-a456-426614174000''"
      "lit ''my_tax_form.pdf''" "lit ''old_scan.pdf''"]
  show ?thesis by blast
qed

section \<open>Stored keys\<close>

lemma length_hex32: "length (hex32 w) = 32"
  by (simp add: hex32_def)

lemma length_uuid_str: "length (uuid_str w) = 36"
  by (simp add: uuid_str_def Let_def length_hex32)

lemma hexdigit_not_underscore: "d < 16 \<Longrightarrow> hexdigit d \<noteq> underscore"
  by (simp add: hexdigit_def underscore_def)

lemma nibble_less: "unat ((x :: 128 word) AND 15) < 16"
proof -
  have "x AND 15 \<le> 15" by (rule word_and_le1)
  then have "unat (x AND 15) \<le> unat (15 :: 128 word)" by (simp add: word_le_nat_alt)
  then show ?thesis by simp
qed

lemma underscore_notin_hex32: "underscore \<notin> set (hex32 w)"
proof
  assume "underscore \<in> set (hex32 w)"
  then obtain i where "underscore = hexdigit (unat (drop_bit (4 * (31 - i)) w AND 15))"
    by (auto simp: hex32_def)
  with hexdigit_not_underscore [OF nibble_less, of "drop_bit (4 * (31 - i)) w"]
  show False by simp
qed

lemma underscore_notin_uuid_str: "underscore \<notin> set (uuid_str w)"
proof -
  have h: "underscore \<notin> set (hex32 w)" by (rule underscore_notin_hex32)
  have t: "underscore \<notin> set (take n (hex32 w))" for n
    using h by (blast dest: in_set_takeD)
  have d: "underscore \<notin> set (drop n (hex32 w))" for n
    using h by (blast dest: in_set_dropD)
  have td: "underscore \<notin> set (take n (drop m (hex32 w)))" for n m
    using d [of m] by (blast dest: in_set_takeD)
  have "hyphen \<noteq> underscore" by (simp add: hyphen_def underscore_def)
  with t d td show ?thesis
    by (simp add: uuid_str_def Let_def)
qed

lemma display_name_unique_filename:
  "display_name (uuid_str w @ underscore # name) = name"
  by (rule display_name_prefixed [OF underscore_notin_uuid_str length_uuid_str])

section \<open>Extensions\<close>

lemma str_rsplit1_parts:
  assumes "sep \<in> set s"
  shows "s = (str_rsplit1 sep s ! 0) @ [sep] @ (str_rsplit1 sep s ! 1)"
    and "sep \<notin> set (str_rsplit1 sep s ! 1)"
proof -
  let ?P = "\<lambda>c. c \<noteq> sep"
  let ?tw = "takeWhile ?P (rev s)" and ?dw = "dropWhile ?P (rev s)"
  from assms have "\<exists>c \<in> set (rev s). \<not> ?P c" by simp
  then have ne: "?dw \<noteq> []" by (simp add: dropWhile_eq_Nil_conv)
  then have "\<not> ?P (hd ?dw)" by (rule hd_dropWhile)
  with ne have dw: "?dw = sep # drop 1 ?dw" by (cases ?dw) simp_all
  have "rev s = ?tw @ ?dw" by simp
  then have "rev s = ?tw @ sep # drop 1 ?dw" using dw by simp
  then have "rev (rev s) = rev (?tw @ sep # drop 1 ?dw)" by (rule arg_cong)
  then have "s = rev (drop 1 ?dw) @ [sep] @ rev ?tw" by simp
  with assms show "s = (str_rsplit1 sep s ! 0) @ [sep] @ (str_rsplit1 sep s ! 1)"
    by (simp add: str_rsplit1_def)
  have "sep \<notin> set ?tw" by (auto dest: set_takeWhileD)
  with assms show "sep \<notin> set (str_rsplit1 sep s ! 1)"
    by (simp add: str_rsplit1_def)
qed

lemma str_rsplit1_last:
  assumes "sep \<notin> set ext"
  shows "str_rsplit1 sep (stem @ [sep] @ ext) ! 1 = ext"
proof -
  have "\<And>c. c \<in> set (rev ext) \<Longrightarrow> c \<noteq> sep"
    using assms by auto
  then have "takeWhile (\<lambda>c. c \<noteq> sep) (rev ext @ sep # rev stem) =
      rev ext @ takeWhile (\<lambda>c. c \<noteq> sep) (sep # rev stem)"
    by (rule takeWhile_append2)
  then show ?thesis by (simp add: str_rsplit1_def)
qed

lemma allowed_file_iff:
  "allowed_file lower filename \<longleftrightarrow>
     (\<exists>stem ext. filename = stem @ [dot] @ ext \<and> dot \<notin> set ext \<and> lower ext = lit ''pdf'')"
proof
  assume a: "allowed_file lower filename"
  then have d: "dot \<in> set filename"
    and l: "lower (str_rsplit1 dot filename ! 1) = lit ''pdf''"
    by (simp_all add: allowed_file_def ALLOWED_EXTENSIONS_def)
  from str_rsplit1_parts [OF d] l
  show "\<exists>stem ext. filename = stem @ [dot] @ ext \<and> dot \<notin> set ext \<and> lower ext = lit ''pdf''"
    by blast
next
  assume "\<exists>stem ext. filename = stem @ [dot] @ ext \<and> dot \<notin> set ext \<and> lower ext = lit ''pdf''"
  then obtain stem ext where f: "filename = stem @ [dot] @ ext"
    and e: "dot \<notin> set ext" and l: "lower ext = lit ''pdf''"
    by (elim exE conjE)
  from f have "dot \<in> set filename" by simp
  moreover from str_rsplit1_last [OF e, of stem] f
  have "str_rsplit1 dot filename ! 1 = ext" by simp
  ultimately show "allowed_file lower filename"
    using l by (simp add: allowed_file_def ALLOWED_EXTENSIONS_def)
qed

section \<open>Uploads\<close>

text \<open>
  Claim C5.  An upload whose filename has no extension that lower-cases to \<open>pdf\<close> is
  answered with a redirect back and one flashed message, and the upload directory is
  left as it was, whatever \<open>save\<close> would have done.
\<close>

theorem upload_rejects_non_pdf:
  assumes "\<nexists>stem ext. file_filename file = stem @ [dot] @ ext \<and> dot \<notin> set ext \<and>
             lower ext = lit ''pdf''"
  shows "upload_file lower secure_filename uuid4 save uploads (Some file) =
           (Redirect_request_url,
            [if file_filename file = [] then lit ''No file selected''
             else lit ''Invalid file type. Please upload a PDF file.''],
            uploads)"
proof -
  from assms have "\<not> allowed_file lower (file_filename file)"
    by (simp only: allowed_file_iff not_False_eq_True)
  then show ?thesis by (simp add: upload_file_def)
qed

lemma txt_has_no_pdf_extension:
  "\<nexists>stem ext. lit ''notes.txt'' = stem @ [dot] @ ext \<and> dot \<notin> set ext \<and>
     ascii_lower ext = lit ''pdf''"
proof -
  have "\<not> allowed_file ascii_lower (lit ''notes.txt'')"
    by (simp add: allowed_file_def str_rsplit1_def ALLOWED_EXTENSIONS_def lit_def dot_def
        ascii_lower_def)
  then show ?thesis by (simp only: allowed_file_iff not_False_eq_True)
qed

theorem upload_rejects_non_pdf_witness:
  "(\<nexists>stem ext. lit ''notes.txt'' = stem @ [dot] @ ext \<and> dot \<notin> set ext \<and>
      ascii_lower ext = lit ''pdf'') \<and>
   upload_file ascii_lower id 7 write_file Map.empty
     (Some \<lparr>file_filename = lit ''notes.txt'', file_bytes = [104, 105]\<rparr>) =
   (Redirect_request_url, [lit ''Invalid file type. Please upload a PDF file.''], Map.empty)"
proof -
  have n: "\<nexists>stem ext. file_filename \<lparr>file_filename = lit ''notes.txt'', file_bytes = [104, 105]\<rparr>
      = stem @ [dot] @ ext \<and> dot \<notin> set ext \<and> ascii_lower ext = lit ''pdf''"
    using txt_has_no_pdf_extension by simp
  have "lit ''notes.txt'' \<noteq> []" by (simp add: lit_def)
  with upload_rejects_non_pdf [OF n, of id 7 write_file Map.empty] txt_has_no_pdf_extension
  show ?thesis by simp
qed

text \<open>
  Claim C10.  An upload that is answered with the redirect to the viewer was saved
  under the key \<open>str(uuid4) + '_' + secure_filename(name)\<close>; the identifier has 36
  characters and no underscore, and the display name of the key is the sanitised name.
\<close>

theorem stored_key_round_trip:
  assumes "upload_file lower secure_filename uuid4 save uploads files =
             (Redirect_view_pdf key, flashes, uploads')"
  shows "\<exists>file. files = Some file \<and>
           key = uuid_str uuid4 @ [underscore] @ secure_filename (file_filename file) \<and>
           length (uuid_str uuid4) = 36 \<and> underscore \<notin> set (uuid_str uuid4) \<and>
           save uploads (os_path_join UPLOAD_FOLDER key) (file_bytes file) = (None, uploads') \<and>
           display_name key = secure_filename (file_filename file)"
proof (cases files)
  case None
  with assms show ?thesis by (simp add: upload_file_def)
next
  case (Some f)
  let ?key = "uuid_str uuid4 @ [underscore] @ secure_filename (file_filename f)"
  obtain e u where s: "save uploads (os_path_join UPLOAD_FOLDER ?key) (file_bytes f) = (e, u)"
    by (cases "save uploads (os_path_join UPLOAD_FOLDER ?key) (file_bytes f)")
  from assms Some s have "key = ?key \<and> e = None \<and> u = uploads'"
    by (cases e) (simp_all add: upload_file_def Let_def split: if_splits)
  with Some s show ?thesis
    by (simp add: length_uuid_str underscore_notin_uuid_str display_name_unique_filename)
qed

lemma upload_example:
  "upload_file ascii_lower id 0x550e8400e29b41d4a716446655440000 write_file Map.empty
     (Some \<lparr>file_filename = lit ''Report.PDF'', file_bytes = [37, 80, 68, 70]\<rparr>) =
   (Redirect_view_pdf (lit ''550e8400-e29b-41d4-a716-446655440000_Report.PDF''), [],
    [lit ''uploads/550e8400-e29b-41d4-a716-446655440000_Report.PDF'' \<mapsto> [37, 80, 68, 70]])"
  by (simp add: upload_file_def allowed_file_def str_rsplit1_def ALLOWED_EXTENSIONS_def lit_def
      dot_def ascii_lower_def uuid_str_def hex32_def hexdigit_def hyphen_def underscore_def
      upt_rec os_path_join_def UPLOAD_FOLDER_def slash_def write_file_def suffix_def Let_def)

theorem stored_key_round_trip_witness:
  "upload_file ascii_lower id 0x550e8400e29b41d4a716446655440000 write_file Map.empty
     (Some \<lparr>file_filename = lit ''Report.PDF'', file_bytes = [37, 80, 68, 70]\<rparr>) =
   (Redirect_view_pdf (lit ''550e8400-e29b-41d4-a716-446655440000_Report.PDF''), [],
    [lit ''uploads/550e8400-e29b-41d4-a716-446655440000_Report.PDF'' \<mapsto> [37, 80, 68, 70]]) \<and>
   display_name (lit ''550e8400-e29b-41d4-a716-446655440000_Report.PDF'') = lit ''Report.PDF''"
proof -
  from stored_key_round_trip [OF upload_example] obtain f where
    f: "Some \<lparr>file_filename = lit ''Report.PDF'', file_bytes = [37, 80, 68, 70]\<rparr> = Some f"
    and d: "display_name (lit ''550e8400-e29b-41d4-a716-446655440000_Report.PDF'') =
      id (file_filename f)"
    by (elim exE conjE)
  from f have "file_filename f = lit ''Report.PDF''" by auto
  with d upload_example show ?thesis by simp
qed

section \<open>The chat handler\<close>

lemma recent_history_drop:
  "recent_history h = drop (length h - min (length h) 10) h"
  by (simp add: recent_history_def min_def)

lemma length_recent_history: "length (recent_history h) = min (length h) 10"
  by (simp add: recent_history_def)

lemma chat_calls:
  assumes "OPENAI_API_KEY = Some k" and "k \<noteq> []"
  shows "snd (chat lower OPENAI_API_KEY create (Some data)) = [messages data]"
  using assms
  by (simp add: chat_def Let_def split: api_outcome.splits sum.splits)

text \<open>
  Claim C1.  With \<open>OPENAI_API_KEY\<close> unset or empty, every chat request is answered
  with the fixed warning, and nothing is passed to the completion API.
\<close>

theorem chat_without_key:
  assumes "OPENAI_API_KEY = None \<or> OPENAI_API_KEY = Some []"
  shows "chat lower OPENAI_API_KEY create (Some data) =
           (Json_response missing_key_warning, [])"
  using assms by (auto simp: chat_def Let_def)

text \<open>
  Claim C2.  With a key configured, the handler makes one call, with the system
  message, then the last \<open>min n 10\<close> entries of a history of length \<open>n\<close> in their
  order, then the user's message; of 15 entries the first 5 are dropped.
\<close>

theorem chat_forwards_recent_history:
  assumes "OPENAI_API_KEY = Some k" and "k \<noteq> []"
  shows "snd (chat lower OPENAI_API_KEY create (Some data)) =
           [[\<lparr>role = lit ''system'', content = system_prompt (req_context data)\<rparr>] @
            drop (length (req_history data) - min (length (req_history data)) 10)
              (req_history data) @
            [\<lparr>role = lit ''user'', content = req_message data\<rparr>]] \<and>
         length (drop (length (req_history data) - min (length (req_history data)) 10)
              (req_history data)) = min (length (req_history data)) 10 \<and>
         (length (req_history data) = 15 \<longrightarrow>
            snd (chat lower OPENAI_API_KEY create (Some data)) =
              [[\<lparr>role = lit ''system'', content = system_prompt (req_context data)\<rparr>] @
               drop 5 (req_history data) @
               [\<lparr>role = lit ''user'', content = req_message data\<rparr>]])"
proof -
  let ?h = "req_history data"
  have c: "snd (chat lower OPENAI_API_KEY create (Some data)) = [messages data]"
    using assms by (rule chat_calls)
  have m: "messages data =
      [\<lparr>role = lit ''system'', content = system_prompt (req_context data)\<rparr>] @
      drop (length ?h - min (length ?h) 10) ?h @
      [\<lparr>role = lit ''user'', content = req_message data\<rparr>]"
    by (simp only: messages_def recent_history_drop)
  have l: "length (drop (length ?h - min (length ?h) 10) ?h) = min (length ?h) 10"
    using length_recent_history [of ?h] by (simp only: recent_history_drop)
  have "length ?h = 15 \<Longrightarrow> drop (length ?h - min (length ?h) 10) ?h = drop 5 ?h"
    by simp
  with c m l show ?thesis by simp
qed


text \<open>
  Claim C3.  With a key configured, when the completion call or the reading of its
  first choice raises an exception whose lower-cased text holds none of the six
  keywords of the authentication, rate-limit and network branches, the reply is chosen
  from the message and the context alone: a quote of the first 200 characters of a
  non-empty selection, followed by \<open>...\<close> exactly when the selection is longer; else the
  summary prompt with the current page when the lower-cased message contains
  \<open>summary\<close>; else the request for a section when it contains \<open>explain\<close>; else the
  general help with the current and the total page.
\<close>

theorem unclassified_failure_reply:
  assumes "OPENAI_API_KEY = Some k" and "k \<noteq> []"
    and "create (messages data) = Raises e \<or>
         (\<exists>choices. create (messages data) = Completion choices \<and>
                    first_choice_text choices = Inl e)"
    and "\<not> str_contains (lit ''authentication'') (lower e)"
    and "\<not> str_contains (lit ''api key'') (lower e)"
    and "\<not> str_contains (lit ''rate limit'') (lower e)"
    and "\<not> str_contains (lit ''quota'') (lower e)"
    and "\<not> str_contains (lit ''connection'') (lower e)"
    and "\<not> str_contains (lit ''network'') (lower e)"
  shows "\<exists>reply.
     fst (chat lower OPENAI_API_KEY create (Some data)) = Json_response reply \<and>
     (\<forall>sel. ctx_selectedText (req_context data) = Some sel \<and> sel \<noteq> [] \<longrightarrow>
        reply =
          lit ''I can see you've selected: '' @ [dquote] @ take 200 sel @
          (if length sel > 200 then lit ''...'' else []) @ [dquote, nl, nl] @
          lit ''What would you like me to explain about this selection? (Note: AI chat temporarily unavailable)'') \<and>
     ((ctx_selectedText (req_context data) = None \<or>
       ctx_selectedText (req_context data) = Some []) \<and>
      str_contains (lit ''summary'') (lower (req_message data)) \<longrightarrow>
        reply =
          lit ''I'd be happy to provide a summary of page '' @
          (case ctx_currentPage (req_context data) of None \<Rightarrow> str_int 1 | Some v \<Rightarrow> str_int v) @
          lit '' of this document. What specific section interests you? (Note: AI chat temporarily unavailable)'') \<and>
     ((ctx_selectedText (req_context data) = None \<or>
       ctx_selectedText (req_context data) = Some []) \<and>
      \<not> str_contains (lit ''summary'') (lower (req_message data)) \<and>
      str_contains (lit ''explain'') (lower (req_message data)) \<longrightarrow>
        reply =
          lit ''I can help explain concepts from this PDF. Could you point me to the specific section or concept you'd like me to clarify? (Note: AI chat temporarily unavailable)'') \<and>
     ((ctx_selectedText (req_context data) = None \<or>
       ctx_selectedText (req_context data) = Some []) \<and>
      \<not> str_contains (lit ''summary'') (lower (req_message data)) \<and>
      \<not> str_contains (lit ''explain'') (lower (req_message data)) \<longrightarrow>
        reply =
          lit ''I'm here to help you understand this PDF document. Currently viewing page '' @
          (case ctx_currentPage (req_context data) of None \<Rightarrow> str_int 1 | Some v \<Rightarrow> str_int v) @
          lit '' of '' @
          (case ctx_totalPages (req_context data) of None \<Rightarrow> lit ''?'' | Some v \<Rightarrow> str_int v) @
          lit ''. What would you like to know? (Note: AI chat temporarily unavailable)'')"
proof -
  let ?r = "openai_error_response lower e (req_message data) (req_context data)"
  from assms(1-3) have "fst (chat lower OPENAI_API_KEY create (Some data)) = Json_response ?r"
    by (auto simp: chat_def Let_def)
  moreover from assms(4-9) have
    "\<forall>sel. ctx_selectedText (req_context data) = Some sel \<and> sel \<noteq> [] \<longrightarrow>
        ?r = lit ''I can see you've selected: '' @ [dquote] @ take 200 sel @
          (if length sel > 200 then lit ''...'' else []) @ [dquote, nl, nl] @
          lit ''What would you like me to explain about this selection? (Note: AI chat temporarily unavailable)''"
    by (simp add: openai_error_response_def Let_def)
  moreover from assms(4-9) have
    "(ctx_selectedText (req_context data) = None \<or>
       ctx_selectedText (req_context data) = Some []) \<and>
      str_contains (lit ''summary'') (lower (req_message data)) \<longrightarrow>
        ?r = lit ''I'd be happy to provide a summary of page '' @
          (case ctx_currentPage (req_context data) of None \<Rightarrow> str_int 1 | Some v \<Rightarrow> str_int v) @
          lit '' of this document. What specific section interests you? (Note: AI chat temporarily unavailable)''"
    by (auto simp: openai_error_response_def Let_def)
  moreover from assms(4-9) have
    "(ctx_selectedText (req_context data) = None \<or>
       ctx_selectedText (req_context data) = Some []) \<and>
      \<not> str_contains (lit ''summary'') (lower (req_message data)) \<and>
      str_contains (lit ''explain'') (lower (req_message data)) \<longrightarrow>
        ?r = lit ''I can help explain concepts from this PDF. Could you point me to the specific section or concept you'd like me to clarify? (Note: AI chat temporarily unavailable)''"
    by (auto simp: openai_error_response_def Let_def)
  moreover from assms(4-9) have
    "(ctx_selectedText (req_context data) = None \<or>
       ctx_selectedText (req_context data) = Some []) \<and>
      \<not> str_contains (lit ''summary'') (lower (req_message data)) \<and>
      \<not> str_contains (lit ''explain'') (lower (req_message data)) \<longrightarrow>
        ?r = lit ''I'm here to help you understand this PDF document. Currently viewing page '' @
          (case ctx_currentPage (req_context data) of None \<Rightarrow> str_int 1 | Some v \<Rightarrow> str_int v) @
          lit '' of '' @
          (case ctx_totalPages (req_context data) of None \<Rightarrow> lit ''?'' | Some v \<Rightarrow> str_int v) @
          lit ''. What would you like to know? (Note: AI chat temporarily unavailable)''"
    by (auto simp: openai_error_response_def Let_def)
  ultimately show ?thesis by (intro exI [of _ ?r] conjI)
qed
lemma example_key_configured: "lit ''sk-test'' \<noteq> []"
  by (simp add: lit_def)

lemma failing_api_unclassified:
  "\<not> str_contains (lit ''authentication'') (ascii_lower (lit ''Internal Server Error''))"
  "\<not> str_contains (lit ''api key'') (ascii_lower (lit ''Internal Server Error''))"
  "\<not> str_contains (lit ''rate limit'') (ascii_lower (lit ''Internal Server Error''))"
  "\<not> str_contains (lit ''quota'') (ascii_lower (lit ''Internal Server Error''))"
  "\<not> str_contains (lit ''connection'') (ascii_lower (lit ''Internal Server Error''))"
  "\<not> str_contains (lit ''network'') (ascii_lower (lit ''Internal Server Error''))"
  by (simp_all add: lit_def ascii_lower_def)

lemma none_content_unclassified:
  "\<not> str_contains (lit ''authentication'')
      (ascii_lower ([squote] @ lit ''NoneType'' @ [squote] @ lit '' object has no attribute '' @
         [squote] @ lit ''strip'' @ [squote]))"
  "\<not> str_contains (lit ''api key'')
      (ascii_lower ([squote] @ lit ''NoneType'' @ [squote] @ lit '' object has no attribute '' @
         [squote] @ lit ''strip'' @ [squote]))"
  "\<not> str_contains (lit ''rate limit'')
      (ascii_lower ([squote] @ lit ''NoneType'' @ [squote] @ lit '' object has no attribute '' @
         [squote] @ lit ''strip'' @ [squote]))"
  "\<not> str_contains (lit ''quota'')
      (ascii_lower ([squote] @ lit ''NoneType'' @ [squote] @ lit '' object has no attribute '' @
         [squote] @ lit ''strip'' @ [squote]))"
  "\<not> str_contains (lit ''connection'')
      (ascii_lower ([squote] @ lit ''NoneType'' @ [squote] @ lit '' object has no attribute '' @
         [squote] @ lit ''strip'' @ [squote]))"
  "\<not> str_contains (lit ''network'')
      (ascii_lower ([squote] @ lit ''NoneType'' @ [squote] @ lit '' object has no attribute '' @
         [squote] @ lit ''strip'' @ [squote]))"
  by (simp_all add: lit_def ascii_lower_def squote_def)

lemma summary_in_upper_case:
  "str_contains (lit ''summary'') (ascii_lower (lit ''Please give me a SUMMARY''))"
  by (simp add: lit_def ascii_lower_def)

theorem chat_without_key_witness:
  "(None = None \<or> None = Some []) \<and>
   chat ascii_lower None failing_api (Some (example_request (lit ''What is this?'') [])) =
     (Json_response missing_key_warning, []) \<and>
   chat ascii_lower (Some []) failing_api (Some (example_request (lit ''What is this?'') [])) =
     (Json_response missing_key_warning, [])"
  using chat_without_key [of None ascii_lower failing_api]
    chat_without_key [of "Some []" ascii_lower failing_api]
  by simp

theorem chat_forwards_recent_history_witness:
  "lit ''sk-test'' \<noteq> [] \<and>
   length (req_history (example_request (lit ''What is this?'') [])) = 15 \<and>
   snd (chat ascii_lower (Some (lit ''sk-test'')) failing_api
          (Some (example_request (lit ''What is this?'') []))) =
     [[\<lparr>role = lit ''system'', content = system_prompt (pdfContext example_key 2 (Some 5) [])\<rparr>] @
      drop 5 example_history @
      [\<lparr>role = lit ''user'', content = lit ''What is this?''\<rparr>]]"
proof -
  have l: "length (req_history (example_request (lit ''What is this?'') [])) = 15"
    by (simp add: example_request_def example_history_def)
  from chat_forwards_recent_history [OF refl example_key_configured, of ascii_lower failing_api
      "example_request (lit ''What is this?'') []"] l
  have "snd (chat ascii_lower (Some (lit ''sk-test'')) failing_api
          (Some (example_request (lit ''What is this?'') []))) =
     [[\<lparr>role = lit ''system'',
        content = system_prompt (req_context (example_request (lit ''What is this?'') []))\<rparr>] @
      drop 5 (req_history (example_request (lit ''What is this?'') [])) @
      [\<lparr>role = lit ''user'', content = req_message (example_request (lit ''What is this?'') [])\<rparr>]]"
    by blast
  with l example_key_configured show ?thesis by (simp add: example_request_def)
qed

lemma failing_api_raises:
  "failing_api (messages data) = Raises (lit ''Internal Server Error'') \<or>
   (\<exists>choices. failing_api (messages data) = Completion choices \<and>
      first_choice_text choices = Inl (lit ''Internal Server Error''))"
  by (simp add: failing_api_def)

lemma blank_api_raises:
  "blank_api (messages data) =
     Raises ([squote] @ lit ''NoneType'' @ [squote] @ lit '' object has no attribute '' @
             [squote] @ lit ''strip'' @ [squote]) \<or>
   (\<exists>choices. blank_api (messages data) = Completion choices \<and>
      first_choice_text choices =
        Inl ([squote] @ lit ''NoneType'' @ [squote] @ lit '' object has no attribute '' @
             [squote] @ lit ''strip'' @ [squote]))"
  by (simp add: blank_api_def first_choice_text_def)

lemma explain_not_summary:
  "\<not> str_contains (lit ''summary'') (ascii_lower (lit ''Explain the proof''))"
  "str_contains (lit ''explain'') (ascii_lower (lit ''Explain the proof''))"
  by (simp_all add: lit_def ascii_lower_def)

lemma neither_summary_nor_explain:
  "\<not> str_contains (lit ''summary'') (ascii_lower (lit ''What is this?''))"
  "\<not> str_contains (lit ''explain'') (ascii_lower (lit ''What is this?''))"
  by (simp_all add: lit_def ascii_lower_def)

theorem unclassified_failure_reply_witness:
  "lit ''sk-test'' \<noteq> [] \<and>
   \<not> str_contains (lit ''authentication'') (ascii_lower (lit ''Internal Server Error'')) \<and>
   \<not> str_contains (lit ''api key'') (ascii_lower (lit ''Internal Server Error'')) \<and>
   \<not> str_contains (lit ''rate limit'') (ascii_lower (lit ''Internal Server Error'')) \<and>
   \<not> str_contains (lit ''quota'') (ascii_lower (lit ''Internal Server Error'')) \<and>
   \<not> str_contains (lit ''connection'') (ascii_lower (lit ''Internal Server Error'')) \<and>
   \<not> str_contains (lit ''network'') (ascii_lower (lit ''Internal Server Error'')) \<and>
   length long_selection = 250 \<and>
   fst (chat ascii_lower (Some (lit ''sk-test'')) failing_api
          (Some (example_request (lit ''Please give me a SUMMARY'') long_selection))) =
     Json_response
       (lit ''I can see you've selected: '' @ [dquote] @ replicate 200 120 @ lit ''...'' @
        [dquote, nl, nl] @
        lit ''What would you like me to explain about this selection? (Note: AI chat temporarily unavailable)'') \<and>
   fst (chat ascii_lower (Some (lit ''sk-test'')) failing_api
          (Some (example_request (lit ''Please give me a SUMMARY'') (lit ''lorem ipsum'')))) =
     Json_response
       (lit ''I can see you've selected: '' @ [dquote] @ lit ''lorem ipsum'' @
        [dquote, nl, nl] @
        lit ''What would you like me to explain about this selection? (Note: AI chat temporarily unavailable)'') \<and>
   fst (chat ascii_lower (Some (lit ''sk-test'')) failing_api
          (Some (example_request (lit ''Please give me a SUMMARY'') []))) =
     Json_response
       (lit ''I'd be happy to provide a summary of page 2 of this document. What specific section interests you? (Note: AI chat temporarily unavailable)'') \<and>
   fst (chat ascii_lower (Some (lit ''sk-test'')) failing_api
          (Some (example_request (lit ''Explain the proof'') []))) =
     Json_response
       (lit ''I can help explain concepts from this PDF. Could you point me to the specific section or concept you'd like me to clarify? (Note: AI chat temporarily unavailable)'') \<and>
   fst (chat ascii_lower (Some (lit ''sk-test'')) failing_api
          (Some (example_request (lit ''What is this?'') []))) =
     Json_response
       (lit ''I'm here to help you understand this PDF document. Currently viewing page 2 of 5. What would you like to know? (Note: AI chat temporarily unavailable)'') \<and>
   fst (chat ascii_lower (Some (lit ''sk-test'')) blank_api
          (Some (example_request (lit ''Explain the proof'') []))) =
     Json_response
       (lit ''I can help explain concepts from this PDF. Could you point me to the specific section or concept you'd like me to clarify? (Note: AI chat temporarily unavailable)'')"
proof -
  note blank = unclassified_failure_reply [where create = blank_api and lower = ascii_lower
      and k = "lit ''sk-test''",
      OF refl example_key_configured blank_api_raises none_content_unclassified]
  note inst = unclassified_failure_reply [where create = failing_api and lower = ascii_lower
      and e = "lit ''Internal Server Error''" and k = "lit ''sk-test''",
      OF refl example_key_configured failing_api_raises failing_api_unclassified]
  have len: "length long_selection = 250"
    by (simp add: long_selection_def)
  have ctx: "ctx_selectedText (req_context (example_request m s)) = Some s"
    "ctx_currentPage (req_context (example_request m s)) = Some 2"
    "ctx_totalPages (req_context (example_request m s)) = Some 5"
    "req_message (example_request m s) = m" for m s
    by (simp_all add: example_request_def pdfContext_def)
  have two: "str_int 2 = lit ''2''" and five: "str_int 5 = lit ''5''"
    by (simp_all add: str_int_def lit_def)
  have a: "fst (chat ascii_lower (Some (lit ''sk-test'')) failing_api
          (Some (example_request (lit ''Please give me a SUMMARY'') long_selection))) =
     Json_response
       (lit ''I can see you've selected: '' @ [dquote] @ replicate 200 120 @ lit ''...'' @
        [dquote, nl, nl] @
        lit ''What would you like me to explain about this selection? (Note: AI chat temporarily unavailable)'')"
    using inst [of "example_request (lit ''Please give me a SUMMARY'') long_selection"]
    by (auto simp: ctx long_selection_def)
  have b: "fst (chat ascii_lower (Some (lit ''sk-test'')) failing_api
          (Some (example_request (lit ''Please give me a SUMMARY'') (lit ''lorem ipsum'')))) =
     Json_response
       (lit ''I can see you've selected: '' @ [dquote] @ lit ''lorem ipsum'' @
        [dquote, nl, nl] @
        lit ''What would you like me to explain about this selection? (Note: AI chat temporarily unavailable)'')"
    using inst [of "example_request (lit ''Please give me a SUMMARY'') (lit ''lorem ipsum'')"]
    by (auto simp: ctx lit_def)
  have c: "fst (chat ascii_lower (Some (lit ''sk-test'')) failing_api
          (Some (example_request (lit ''Please give me a SUMMARY'') []))) =
     Json_response
       (lit ''I'd be happy to provide a summary of page 2 of this document. What specific section interests you? (Note: AI chat temporarily unavailable)'')"
    using inst [of "example_request (lit ''Please give me a SUMMARY'') []"] summary_in_upper_case
    by (auto simp: ctx two lit_def)
  have d: "fst (chat ascii_lower (Some (lit ''sk-test'')) failing_api
          (Some (example_request (lit ''Explain the proof'') []))) =
     Json_response
       (lit ''I can help explain concepts from this PDF. Could you point me to the specific section or concept you'd like me to clarify? (Note: AI chat temporarily unavailable)'')"
    using inst [of "example_request (lit ''Explain the proof'') []"] explain_not_summary
    by (auto simp: ctx)
  have e: "fst (chat ascii_lower (Some (lit ''sk-test'')) failing_api
          (Some (example_request (lit ''What is this?'') []))) =
     Json_response
       (lit ''I'm here to help you understand this PDF document. Currently viewing page 2 of 5. What would you like to know? (Note: AI chat temporarily unavailable)'')"
    using inst [of "example_request (lit ''What is this?'') []"] neither_summary_nor_explain
    by (auto simp: ctx two five lit_def)
  have f: "fst (chat ascii_lower (Some (lit ''sk-test'')) blank_api
          (Some (example_request (lit ''Explain the proof'') []))) =
     Json_response
       (lit ''I can help explain concepts from this PDF. Could you point me to the specific section or concept you'd like me to clarify? (Note: AI chat temporarily unavailable)'')"
    using blank [of "example_request (lit ''Explain the proof'') []"] explain_not_summary
    by (auto simp: ctx)
  from example_key_configured failing_api_unclassified len a b c d e f
  show ?thesis by (intro conjI)
qed

section \<open>Zoom\<close>

lemma click_keeps_range:
  assumes m: "mono fl" and h: "fl (1 / 2) = 1 / 2" and o: "fl 1 = 1" and t: "fl 3 = 3"
    and lo: "1 / 2 \<le> scale" and hi: "scale \<le> 3"
  shows "1 / 2 \<le> click fl scale button \<and> click fl scale button \<le> 3"
proof (cases button)
  case ZoomIn
  have "fl 1 \<le> fl (125 / 100)" using m by (rule monoD) simp
  with o have c: "1 \<le> fl (125 / 100)" by simp
  from lo have "0 \<le> scale" by simp
  with c have "scale * 1 \<le> scale * fl (125 / 100)" by (rule mult_left_mono)
  then have "scale \<le> scale * fl (125 / 100)" by (simp only: mult_1_right)
  with lo have "1 / 2 \<le> scale * fl (125 / 100)" by (rule order_trans)
  with m have "fl (1 / 2) \<le> fl (scale * fl (125 / 100))" by (rule monoD)
  with h have "1 / 2 \<le> fl (scale * fl (125 / 100))" by simp
  with ZoomIn t show ?thesis by (simp add: zoomIn_def Let_def)
next
  case ZoomOut
  have "fl (8 / 10) \<le> fl 1" using m by (rule monoD) simp
  with o have c1: "fl (8 / 10) \<le> 1" by simp
  from lo have "0 \<le> scale" by simp
  with c1 have "scale * fl (8 / 10) \<le> scale * 1" by (rule mult_left_mono)
  then have "scale * fl (8 / 10) \<le> scale" by (simp only: mult_1_right)
  then have "scale * fl (8 / 10) \<le> 3" using hi by (rule order_trans)
  with m have "fl (scale * fl (8 / 10)) \<le> fl 3" by (rule monoD)
  with t have "fl (scale * fl (8 / 10)) \<le> 3" by simp
  with ZoomOut h show ?thesis by (simp add: zoomOut_def Let_def)
next
  case ResetZoom
  have "fl (1 / 2) \<le> fl (12 / 10)" using m by (rule monoD) simp
  moreover have "fl (12 / 10) \<le> fl 3" using m by (rule monoD) simp
  ultimately show ?thesis using ResetZoom h t by (simp add: resetZoom_def)
qed

lemma foldl_click_keeps_range:
  assumes "mono fl" and "fl (1 / 2) = 1 / 2" and "fl 1 = 1" and "fl 3 = 3"
    and "1 / 2 \<le> scale" and "scale \<le> 3"
  shows "1 / 2 \<le> foldl (click fl) scale buttons \<and> foldl (click fl) scale buttons \<le> 3"
  using assms(5,6)
proof (induction buttons arbitrary: scale)
  case Nil
  then show ?case by simp
next
  case (Cons b bs)
  from click_keeps_range [OF assms(1-4) Cons.prems, of b]
  have "1 / 2 \<le> click fl scale b" and "click fl scale b \<le> 3" by simp_all
  then show ?case using Cons.IH by simp
qed

lemma initial_scale_in_range:
  assumes m: "mono fl" and h: "fl (1 / 2) = 1 / 2" and t: "fl 3 = 3"
  shows "1 / 2 \<le> initial_scale fl \<and> initial_scale fl \<le> 3"
proof -
  have "fl (1 / 2) \<le> fl (12 / 10)" using m by (rule monoD) simp
  moreover have "fl (12 / 10) \<le> fl 3" using m by (rule monoD) simp
  ultimately show ?thesis using h t by (simp add: initial_scale_def)
qed

text \<open>
  Claim C8.  For a rounding that is monotone and leaves \<open>1/2\<close>, \<open>1\<close> and \<open>3\<close> as they
  are, as rounding to the nearest binary floating-point number does and as exact
  arithmetic does, the scale after any sequence of clicks on the three zoom buttons,
  starting from the initial scale, lies between \<open>0.5\<close> and \<open>3\<close>; a click on reset
  gives the initial scale again.
\<close>

theorem zoom_scale_in_range:
  assumes "mono fl" and "fl (1 / 2) = 1 / 2" and "fl 1 = 1" and "fl 3 = 3"
  shows "1 / 2 \<le> clicks fl buttons \<and> clicks fl buttons \<le> 3 \<and>
         clicks fl (buttons @ [ResetZoom]) = initial_scale fl \<and>
         resetZoom fl scale = initial_scale fl"
proof -
  from initial_scale_in_range [OF assms(1,2,4)]
  have "1 / 2 \<le> initial_scale fl" and "initial_scale fl \<le> 3" by simp_all
  from foldl_click_keeps_range [OF assms this, of buttons]
  show ?thesis by (simp add: clicks_def resetZoom_def initial_scale_def)
qed

theorem zoom_scale_in_range_witness:
  "(\<forall>buttons. 1 / 2 \<le> clicks (\<lambda>x. x) buttons \<and> clicks (\<lambda>x. x) buttons \<le> 3) \<and>
   initial_scale (\<lambda>x. x) = 12 / 10 \<and>
   clicks (\<lambda>x. x) [ZoomIn, ZoomIn, ZoomIn, ZoomIn] = 1875 / 640 \<and>
   clicks (\<lambda>x. x) [ZoomIn, ZoomIn, ZoomIn, ZoomIn, ZoomIn] = 3 \<and>
   clicks (\<lambda>x. x) [ZoomOut, ZoomOut, ZoomOut, ZoomOut] = 1 / 2 \<and>
   clicks (\<lambda>x. x) [ZoomIn, ZoomOut, ResetZoom] = 12 / 10"
proof -
  have m: "mono (\<lambda>x :: real. x)" by (simp add: mono_def)
  have "1 / 2 \<le> clicks (\<lambda>x. x) buttons \<and> clicks (\<lambda>x. x) buttons \<le> 3" for buttons
    using zoom_scale_in_range [OF m refl refl refl, of buttons] by simp
  then show ?thesis
    by (simp add: clicks_def initial_scale_def zoomIn_def zoomOut_def resetZoom_def Let_def)
qed

section \<open>Viewing and serving\<close>

lemma upload_path:
  assumes "slash \<notin> set filename"
  shows "os_path_join UPLOAD_FOLDER filename = lit ''uploads/'' @ filename"
proof -
  from assms have "\<not> prefix [slash] filename" by (cases filename) auto
  moreover have "\<not> suffix [slash] UPLOAD_FOLDER"
    by (simp add: UPLOAD_FOLDER_def lit_def slash_def suffix_def)
  moreover have "UPLOAD_FOLDER \<noteq> []" by (simp add: UPLOAD_FOLDER_def lit_def)
  ultimately show ?thesis
    by (simp add: os_path_join_def UPLOAD_FOLDER_def lit_def slash_def)
qed

text \<open>
  Claim C6, as the code has it.  The route hands the handlers a key without a slash.
  Neither handler inspects the key: each looks up \<open>uploads/\<close> followed by the key.  If
  that path does not exist, \<open>view_pdf\<close> redirects to the index with \<open>File not found\<close> and
  \<open>serve_pdf\<close> answers 404; if it exists, \<open>view_pdf\<close> renders the viewer for the key and
  \<open>serve_pdf\<close> answers with what \<open>send_from_directory\<close> returns for the upload folder
  and the key, or with status 500 and the text of the exception it raised.
\<close>

theorem handlers_check_existence_only:
  assumes "slash \<notin> set filename"
  shows "(\<not> path_exists (lit ''uploads/'' @ filename) \<longrightarrow>
            view_pdf path_exists filename = Redirect_index (lit ''File not found'') \<and>
            serve_pdf path_exists send_from_directory filename =
              Text_status (lit ''PDF file not found'') 404) \<and>
         (path_exists (lit ''uploads/'' @ filename) \<longrightarrow>
            view_pdf path_exists filename = Viewer_page filename (display_name filename) \<and>
            serve_pdf path_exists send_from_directory filename =
              (case send_from_directory UPLOAD_FOLDER filename of
                 Inr bytes \<Rightarrow> Pdf_bytes bytes
               | Inl e \<Rightarrow> Text_status (lit ''Error serving PDF: '' @ e) 500))"
  using upload_path [OF assms] by (simp add: view_pdf_def serve_pdf_def Let_def)

lemma example_fs_paths:
  "example_fs (lit ''uploads/'' @ lit ''..'')"
  "\<not> example_fs (lit ''uploads/'' @ lit ''missing.pdf'')"
  by (simp_all add: example_fs_def lit_def)

theorem handlers_check_existence_only_witness:
  "slash \<notin> set (lit ''..'') \<and> slash \<notin> set (lit ''missing.pdf'') \<and>
   example_fs (lit ''uploads/'' @ lit ''..'') \<and>
   \<not> example_fs (lit ''uploads/'' @ lit ''missing.pdf'') \<and>
   view_pdf example_fs (lit ''missing.pdf'') = Redirect_index (lit ''File not found'') \<and>
   serve_pdf example_fs refusing_send (lit ''missing.pdf'') =
     Text_status (lit ''PDF file not found'') 404 \<and>
   view_pdf example_fs (lit ''..'') = Viewer_page (lit ''..'') (lit ''..'') \<and>
   serve_pdf example_fs refusing_send (lit ''..'') =
     Text_status (lit ''Error serving PDF: 404 Not Found'') 500"
proof -
  have a: "slash \<notin> set (lit ''..'')" and b: "slash \<notin> set (lit ''missing.pdf'')"
    by (simp_all add: lit_def slash_def)
  have d: "display_name (lit ''..'') = lit ''..''"
    by (simp add: display_name_def lit_def underscore_def)
  have r: "refusing_send UPLOAD_FOLDER (lit ''..'') = Inl (lit ''404 Not Found'')"
    by (simp add: refusing_send_def)
  have l: "lit ''Error serving PDF: '' @ lit ''404 Not Found'' = lit ''Error serving PDF: 404 Not Found''"
    by (simp add: lit_def)
  from handlers_check_existence_only [OF a, of example_fs refusing_send]
    handlers_check_existence_only [OF b, of example_fs refusing_send]
    example_fs_paths a b d r l
  show ?thesis by simp
qed

text \<open>
  Claim C6 as it was stated asks that a key with a path-traversal sequence be rejected.
  The key \<open>..\<close> is such a sequence, and the route delivers it; \<open>uploads/..\<close> exists
  whenever the upload folder does.  \<open>view_pdf\<close> does not reject it: it renders the viewer
  page for it.
\<close>

theorem traversal_key_counterexample:
  "str_contains (lit ''..'') (lit ''..'') \<and>
   slash \<notin> set (lit ''..'') \<and>
   os_path_join UPLOAD_FOLDER (lit ''..'') = lit ''uploads/..'' \<and>
   example_fs (lit ''uploads/..'') \<and>
   view_pdf example_fs (lit ''..'') = Viewer_page (lit ''..'') (lit ''..'')"
  by (simp add: view_pdf_def Let_def os_path_join_def UPLOAD_FOLDER_def example_fs_def
      display_name_def lit_def slash_def underscore_def suffix_def)

section \<open>The system instruction\<close>






end
